theory Spec2Isabelle
  imports Complex_Main "HOL-Library.Sublist"
begin

section \<open>JavaScript values and thrown values\<close>

text \<open>
  Values that cross the boundaries of the program untyped: the object literal built for the
  request body, and whatever a \<^verbatim>\<open>catch (error)\<close> clause receives. A number is taken as the
  real number it denotes.
\<close>

datatype js_value =
  JsUndefined
| JsNull
| JsBool bool
| JsNum real
| JsStr string
| JsArr "js_value list"
| JsObj "(string \<times> js_value) list"

text \<open>
  JavaScript can throw any value. \<open>Error m\<close> is an instance of the class \<^verbatim>\<open>Error\<close> (or of a
  subclass) whose \<^verbatim>\<open>message\<close>, read inside a template literal, gives the text \<open>m\<close>.
  \<open>Unreadable t\<close> is an instance of \<^verbatim>\<open>Error\<close> whose message cannot be read in that way: the
  getter of \<^verbatim>\<open>message\<close> throws \<open>t\<close>, or the message is a Symbol and the template literal
  throws the TypeError \<open>t\<close>. \<open>NonError v\<close> is any other thrown value, for which
  \<^verbatim>\<open>error instanceof Error\<close> is false.
\<close>

datatype thrown =
  Error string
| Unreadable thrown
| NonError js_value

text \<open>
  The expression \<^verbatim>\<open>error instanceof Error ? error.message : 'Unknown error'\<close> inside a
  template literal, as all four \<^verbatim>\<open>catch\<close> clauses of the program have it: the text it
  contributes, or the value thrown while it is evaluated. No \<^verbatim>\<open>try\<close> encloses it, so a value
  thrown here leaves the function.
\<close>

fun message_or_unknown :: "thrown \<Rightarrow> thrown + string" where
  "message_or_unknown (Error m) = Inr m"
| "message_or_unknown (Unreadable t) = Inl t"
| "message_or_unknown (NonError v) = Inr ''Unknown error''"

section \<open>domain/result.ts\<close>

text \<open>
  The class has three private fields; the optional constructor parameters \<^verbatim>\<open>_value?\<close> and
  \<^verbatim>\<open>_error?\<close> are \<open>None\<close> when \<^verbatim>\<open>undefined\<close>. The constructor is private: the only ways to
  build a Result are \<open>Result_ok\<close> and \<open>Result_fail\<close>. A getter that can throw returns
  \<open>Inl\<close> of the thrown value.
\<close>

record 'a Result =
  priv_isSuccess :: bool
  priv_value :: "'a option"
  priv_error :: "string option"

definition Result_isSuccess :: "'a Result \<Rightarrow> bool" where
  "Result_isSuccess r = priv_isSuccess r"

definition Result_isFailure :: "'a Result \<Rightarrow> bool" where
  "Result_isFailure r = (\<not> priv_isSuccess r)"

definition Result_value :: "'a Result \<Rightarrow> thrown + 'a option" where
  "Result_value r =
     (if \<not> priv_isSuccess r then Inl (Error ''Cannot get value from failed result'')
      else Inr (priv_value r))"

definition Result_error :: "'a Result \<Rightarrow> thrown + string option" where
  "Result_error r =
     (if priv_isSuccess r then Inl (Error ''Cannot get error from successful result'')
      else Inr (priv_error r))"

definition Result_ok :: "'a option \<Rightarrow> 'a Result" where
  "Result_ok v = \<lparr>priv_isSuccess = True, priv_value = v, priv_error = None\<rparr>"

definition Result_fail :: "string \<Rightarrow> 'a Result" where
  "Result_fail e = \<lparr>priv_isSuccess = False, priv_value = None, priv_error = Some e\<rparr>"

section \<open>application/command-bus.ts and application/query-bus.ts\<close>

text \<open>
  A handler is an object with one asynchronous method \<^verbatim>\<open>handle\<close>. The method runs in a world
  \<open>'w\<close> (everything outside the bus that it may read or change) and its promise settles:
  \<open>Inl t\<close> when the method throws \<open>t\<close> synchronously or the promise rejects with \<open>t\<close> (under
  \<^verbatim>\<open>await\<close> inside \<^verbatim>\<open>try\<close> both reach the \<^verbatim>\<open>catch\<close> clause), \<open>Inr r\<close> when it resolves to
  \<open>r\<close>. A handler may hold the bus it is registered on, and \<^verbatim>\<open>register\<close> is public: the
  third component of the result lists the calls \<open>register name handler\<close> that the method made
  on that bus while it ran, in order.
\<close>

datatype ('c, 'r, 'w) ICommandHandler =
  ICommandHandler
    (handle: "'c \<Rightarrow> 'w \<Rightarrow>
       (thrown + 'r Result) \<times> 'w \<times> (string \<times> ('c, 'r, 'w) ICommandHandler) list")

datatype ('q, 'r, 'w) IQueryHandler =
  IQueryHandler
    (handle: "'q \<Rightarrow> 'w \<Rightarrow>
       (thrown + 'r Result) \<times> 'w \<times> (string \<times> ('q, 'r, 'w) IQueryHandler) list")

text \<open>The private field \<^verbatim>\<open>handlers\<close> is a \<^verbatim>\<open>Map\<close> from names to handlers, empty at first.\<close>

record ('c, 'r, 'w) CommandBus =
  handlers :: "string \<rightharpoonup> ('c, 'r, 'w) ICommandHandler"

record ('q, 'r, 'w) QueryBus =
  handlers :: "string \<rightharpoonup> ('q, 'r, 'w) IQueryHandler"

text \<open>
  What one call of \<^verbatim>\<open>execute\<close> does: how the returned promise settles (\<open>Inl\<close> is a
  rejection), the calls of \<^verbatim>\<open>handle\<close> it made (handler and argument, in order), the bus
  and the world it leaves behind.
\<close>

record ('r, 'call, 'bus, 'w) Execution =
  settled :: "thrown + 'r Result"
  invoked :: "'call list"
  bus_after :: 'bus
  world_after :: 'w

definition CommandBus_new :: "('c, 'r, 'w) CommandBus" where
  "CommandBus_new = \<lparr>CommandBus.handlers = Map.empty\<rparr>"

definition CommandBus_register ::
  "string \<Rightarrow> ('c, 'r, 'w) ICommandHandler \<Rightarrow> ('c, 'r, 'w) CommandBus \<Rightarrow> ('c, 'r, 'w) CommandBus"
where
  "CommandBus_register commandName handler bus =
     bus\<lparr>CommandBus.handlers := (CommandBus.handlers bus)(commandName \<mapsto> handler)\<rparr>"

text \<open>
  The handler is looked up before it runs, so what it registers during the call changes
  the bus that the call leaves behind, not the handler that the call runs.
\<close>

definition CommandBus_execute ::
  "('c, 'r, 'w) CommandBus \<Rightarrow> string \<Rightarrow> 'c \<Rightarrow> 'w
   \<Rightarrow> ('r, ('c, 'r, 'w) ICommandHandler \<times> 'c, ('c, 'r, 'w) CommandBus, 'w) Execution"
where
  "CommandBus_execute bus commandName command w =
     (case CommandBus.handlers bus commandName of
        None \<Rightarrow>
          \<lparr>settled = Inr (Result_fail (''No handler registered for command: '' @ commandName)),
           invoked = [], bus_after = bus, world_after = w\<rparr>
      | Some handler \<Rightarrow>
          (case ICommandHandler.handle handler command w of
             (Inr r, w', registered) \<Rightarrow>
               \<lparr>settled = Inr r, invoked = [(handler, command)],
                bus_after = fold (\<lambda>(name, h). CommandBus_register name h) registered bus,
                world_after = w'\<rparr>
           | (Inl error, w', registered) \<Rightarrow>
               \<lparr>settled =
                  (case message_or_unknown error of
                     Inl t \<Rightarrow> Inl t
                   | Inr msg \<Rightarrow> Inr (Result_fail (''Error executing command: '' @ msg))),
                invoked = [(handler, command)],
                bus_after = fold (\<lambda>(name, h). CommandBus_register name h) registered bus,
                world_after = w'\<rparr>))"

definition QueryBus_new :: "('q, 'r, 'w) QueryBus" where
  "QueryBus_new = \<lparr>QueryBus.handlers = Map.empty\<rparr>"

definition QueryBus_register ::
  "string \<Rightarrow> ('q, 'r, 'w) IQueryHandler \<Rightarrow> ('q, 'r, 'w) QueryBus \<Rightarrow> ('q, 'r, 'w) QueryBus"
where
  "QueryBus_register queryName handler bus =
     bus\<lparr>QueryBus.handlers := (QueryBus.handlers bus)(queryName \<mapsto> handler)\<rparr>"

definition QueryBus_execute ::
  "('q, 'r, 'w) QueryBus \<Rightarrow> string \<Rightarrow> 'q \<Rightarrow> 'w
   \<Rightarrow> ('r, ('q, 'r, 'w) IQueryHandler \<times> 'q, ('q, 'r, 'w) QueryBus, 'w) Execution"
where
  "QueryBus_execute bus queryName query w =
     (case QueryBus.handlers bus queryName of
        None \<Rightarrow>
          \<lparr>settled = Inr (Result_fail (''No handler registered for query: '' @ queryName)),
           invoked = [], bus_after = bus, world_after = w\<rparr>
      | Some handler \<Rightarrow>
          (case IQueryHandler.handle handler query w of
             (Inr r, w', registered) \<Rightarrow>
               \<lparr>settled = Inr r, invoked = [(handler, query)],
                bus_after = fold (\<lambda>(name, h). QueryBus_register name h) registered bus,
                world_after = w'\<rparr>
           | (Inl error, w', registered) \<Rightarrow>
               \<lparr>settled =
                  (case message_or_unknown error of
                     Inl t \<Rightarrow> Inl t
                   | Inr msg \<Rightarrow> Inr (Result_fail (''Error executing query: '' @ msg))),
                invoked = [(handler, query)],
                bus_after = fold (\<lambda>(name, h). QueryBus_register name h) registered bus,
                world_after = w'\<rparr>))"

section \<open>domain/exa-types.ts\<close>

text \<open>
  \<^verbatim>\<open>SearchMode\<close> is the union of the two string literals. A response is whatever JSON the
  endpoint sent: \<^verbatim>\<open>res.json() as Promise<ExaSearchResponse>\<close> is a cast, nothing is checked.
\<close>

datatype SearchMode = Search | Research

fun SearchMode_string :: "SearchMode \<Rightarrow> string" where
  "SearchMode_string Search = ''search''"
| "SearchMode_string Research = ''research''"

datatype json =
  JNull
| JBool bool
| JNum real
| JStr string
| JArr "json list"
| JObj "(string \<times> json) list"

type_synonym ExaSearchResponse = json

section \<open>The runtime: JSON.stringify, number formatting, environment, fetch, console\<close>

text \<open>
  \<^verbatim>\<open>JSON.stringify\<close> gives no text for \<^verbatim>\<open>undefined\<close>, leaves out the properties of an object
  whose value is \<^verbatim>\<open>undefined\<close>, and writes \<^verbatim>\<open>null\<close> for such an element of an array. The
  text it produces is kept as the JSON value that the text denotes.
\<close>

fun JSON_stringify :: "js_value \<Rightarrow> json option" where
  "JSON_stringify JsUndefined = None"
| "JSON_stringify JsNull = Some JNull"
| "JSON_stringify (JsBool b) = Some (JBool b)"
| "JSON_stringify (JsNum n) = Some (JNum n)"
| "JSON_stringify (JsStr s) = Some (JStr s)"
| "JSON_stringify (JsArr xs) =
     Some (JArr (map (\<lambda>x. case JSON_stringify x of None \<Rightarrow> JNull | Some j \<Rightarrow> j) xs))"
| "JSON_stringify (JsObj kvs) =
     Some (JObj (concat (map (\<lambda>(k, v). case JSON_stringify v of None \<Rightarrow> [] | Some j \<Rightarrow> [(k, j)])
       kvs)))"

text \<open>A non-negative integer inside a template literal is written in decimal.\<close>

definition digit :: "nat \<Rightarrow> char" where
  "digit n = ''0123456789'' ! (n mod 10)"

fun decimal :: "nat \<Rightarrow> string" where
  "decimal n = (if n < 10 then [digit n] else decimal (n div 10) @ [digit (n mod 10)])"

declare decimal.simps [simp del]

text \<open>
  A request as \<^verbatim>\<open>fetch\<close> receives it (\<open>http_method\<close> is the option \<^verbatim>\<open>method\<close>), and a
  response as the program reads it: \<open>status\<close>, what \<^verbatim>\<open>res.text()\<close> settles to (it rejects
  when the body cannot be read) and what \<^verbatim>\<open>res.json()\<close> settles to (it rejects also when the
  body is not JSON). \<^verbatim>\<open>res.ok\<close> is true for the statuses 200 to 299.
\<close>

record http_request =
  url :: string
  http_method :: string
  headers :: "(string \<times> string) list"
  body :: "json option"

record http_response =
  status :: nat
  body_text :: "thrown + string"
  body_json :: "thrown + json"

definition Response_ok :: "http_response \<Rightarrow> bool" where
  "Response_ok res = (200 \<le> status res \<and> status res \<le> 299)"

text \<open>
  The world outside the program: \<^verbatim>\<open>import.meta.env\<close> (\<open>None\<close> when there is no such
  object), \<^verbatim>\<open>process.env\<close> (\<open>None\<close> when \<^verbatim>\<open>typeof process\<close> is \<^verbatim>\<open>'undefined'\<close>), how the
  network answers a request (\<open>Inl\<close>: the promise of \<^verbatim>\<open>fetch\<close> rejects), the requests sent so
  far and the lines written to the console.
\<close>

record world =
  import_meta_env :: "(string \<rightharpoonup> string) option"
  process_env :: "(string \<rightharpoonup> string) option"
  network :: "http_request \<Rightarrow> thrown + http_response"
  requests :: "http_request list"
  console :: "string list"

definition fetch :: "http_request \<Rightarrow> world \<Rightarrow> (thrown + http_response) \<times> world" where
  "fetch req w = (network w req, w\<lparr>requests := requests w @ [req]\<rparr>)"

definition console_log :: "string \<Rightarrow> world \<Rightarrow> world" where
  "console_log line w = w\<lparr>console := console w @ [line]\<rparr>"

section \<open>infrastructure/exa-service.ts\<close>

definition EXA_BASE_URL :: string where
  "EXA_BASE_URL = ''https://api.exa.ai''"

text \<open>
  \<^verbatim>\<open>a ?? b\<close> takes \<open>b\<close> only when \<open>a\<close> is \<^verbatim>\<open>undefined\<close> or \<^verbatim>\<open>null\<close>; \<^verbatim>\<open>!key\<close> holds for
  \<^verbatim>\<open>undefined\<close> and for the empty string.
\<close>

definition getApiKey :: "world \<Rightarrow> thrown + string" where
  "getApiKey w =
     (let key =
        (case (case import_meta_env w of None \<Rightarrow> None | Some env \<Rightarrow> env ''VITE_EXA_API_KEY'') of
           Some k \<Rightarrow> Some k
         | None \<Rightarrow>
             (case process_env w of None \<Rightarrow> None | Some env \<Rightarrow> env ''VITE_EXA_API_KEY''))
      in case key of
           None \<Rightarrow>
             Inl (Error ''Exa API key not configured. Set VITE_EXA_API_KEY in your .env file.'')
         | Some k \<Rightarrow>
             if k = []
             then Inl (Error
               ''Exa API key not configured. Set VITE_EXA_API_KEY in your .env file.'')
             else Inr k)"

definition exaSearch ::
  "string \<Rightarrow> SearchMode \<Rightarrow> world \<Rightarrow> (thrown + ExaSearchResponse) \<times> world"
where
  "exaSearch query mode w =
     (case getApiKey w of
        Inl error \<Rightarrow> (Inl error, w)
      | Inr apiKey \<Rightarrow>
          (let isResearch = (mode = Research);
               body = JsObj
                 [(''query'', JsStr query),
                  (''type'', JsStr (if isResearch then ''deep'' else ''auto'')),
                  (''numResults'', JsNum (if isResearch then 20 else 10)),
                  (''contents'', JsObj
                     [(''text'', JsBool True),
                      (''highlights'', if isResearch then JsBool True else JsUndefined),
                      (''summary'', if isResearch then JsBool True else JsUndefined)])]
           in case fetch
                \<lparr>url = EXA_BASE_URL @ ''/search'',
                 http_method = ''POST'',
                 headers = [(''Content-Type'', ''application/json''), (''x-api-key'', apiKey)],
                 body = JSON_stringify body\<rparr> w of
                (Inl error, w') \<Rightarrow> (Inl error, w')
              | (Inr res, w') \<Rightarrow>
                  if \<not> Response_ok res
                  then (case body_text res of
                          Inl error \<Rightarrow> (Inl error, w')
                        | Inr errorText \<Rightarrow>
                            (Inl (Error (''Exa API error ('' @ decimal (status res) @ ''): ''
                               @ errorText)), w'))
                  else (body_json res, w')))"

section \<open>domain/command.ts, domain/query.ts and the commands and queries\<close>

text \<open>
  The constructors of the base classes read the clock and draw a random UUID; here both
  are given. The timestamp is in milliseconds since the epoch.
\<close>

record BaseCommand =
  timestamp :: nat
  commandId :: string

record SearchCommand = BaseCommand +
  query :: string
  mode :: SearchMode

record BaseQuery =
  timestamp :: nat
  queryId :: string

record GetSearchResultsQuery = BaseQuery +
  searchId :: string

section \<open>application/commands/search-command-handler.ts\<close>

definition SearchCommandHandler_handle ::
  "SearchCommand \<Rightarrow> world \<Rightarrow> (thrown + ExaSearchResponse Result) \<times> world"
where
  "SearchCommandHandler_handle command w =
     (case exaSearch (query command) (mode command)
             (console_log (''Executing Exa '' @ SearchMode_string (mode command) @ '' for: \"''
                 @ query command @ ''\"'') w) of
        (Inr response, w') \<Rightarrow> (Inr (Result_ok (Some response)), w')
      | (Inl error, w') \<Rightarrow>
          (case message_or_unknown error of
             Inl t \<Rightarrow> (Inl t, w')
           | Inr msg \<Rightarrow> (Inr (Result_fail (''Search failed: '' @ msg)), w')))"

text \<open>The class has no fields: its objects hold no bus and register nothing.\<close>

definition SearchCommandHandler_new ::
  "(SearchCommand, ExaSearchResponse, world) ICommandHandler"
where
  "SearchCommandHandler_new =
     ICommandHandler (\<lambda>command w.
       case SearchCommandHandler_handle command w of (outcome, w') \<Rightarrow> (outcome, w', []))"

section \<open>application/queries/get-search-results-query-handler.ts\<close>

text \<open>Nothing in the \<^verbatim>\<open>try\<close> block can throw, so the \<^verbatim>\<open>catch\<close> clause is never entered.\<close>

definition GetSearchResultsQueryHandler_handle ::
  "GetSearchResultsQuery \<Rightarrow> world \<Rightarrow> (thrown + json Result) \<times> world"
where
  "GetSearchResultsQueryHandler_handle q w =
     (let results = JArr
        [JObj [(''id'', JNum 1), (''title'', JStr ''Result 1''),
               (''description'', JStr ''Sample result 1'')],
         JObj [(''id'', JNum 2), (''title'', JStr ''Result 2''),
               (''description'', JStr ''Sample result 2'')]]
      in (Inr (Result_ok (Some results)),
          console_log (''Fetching results for search: '' @ searchId q) w))"

definition GetSearchResultsQueryHandler_new ::
  "(GetSearchResultsQuery, json, world) IQueryHandler"
where
  "GetSearchResultsQueryHandler_new =
     IQueryHandler (\<lambda>q w.
       case GetSearchResultsQueryHandler_handle q w of (outcome, w') \<Rightarrow> (outcome, w', []))"

section \<open>infrastructure/container.ts\<close>

record Container =
  priv_commandBus :: "(SearchCommand, ExaSearchResponse, world) CommandBus"
  priv_queryBus :: "(GetSearchResultsQuery, json, world) QueryBus"

definition registerHandlers :: "Container \<Rightarrow> Container" where
  "registerHandlers this =
     this\<lparr>priv_commandBus :=
            CommandBus_register ''SearchCommand'' SearchCommandHandler_new (priv_commandBus this),
          priv_queryBus :=
            QueryBus_register ''GetSearchResultsQuery'' GetSearchResultsQueryHandler_new
              (priv_queryBus this)\<rparr>"

definition Container_new :: Container where
  "Container_new =
     registerHandlers \<lparr>priv_commandBus = CommandBus_new, priv_queryBus = QueryBus_new\<rparr>"

text \<open>The static field \<^verbatim>\<open>instance\<close> is passed in and returned.\<close>

definition Container_getInstance :: "Container option \<Rightarrow> Container \<times> Container option" where
  "Container_getInstance instance =
     (case instance of
        None \<Rightarrow> (Container_new, Some Container_new)
      | Some c \<Rightarrow> (c, Some c))"

definition Container_commandBus ::
  "Container \<Rightarrow> (SearchCommand, ExaSearchResponse, world) CommandBus"
where
  "Container_commandBus this = priv_commandBus this"

definition Container_queryBus :: "Container \<Rightarrow> (GetSearchResultsQuery, json, world) QueryBus" where
  "Container_queryBus this = priv_queryBus this"

section \<open>Test doubles\<close>

text \<open>
  A handler whose \<^verbatim>\<open>handle\<close> settles in the given way for every input, leaves the world
  alone and registers nothing, as a test of a bus would register it; and a handler that
  holds its bus and registers the given handler under the given name each time it runs.
\<close>

definition stub_command_handler :: "thrown + 'r Result \<Rightarrow> ('c, 'r, 'w) ICommandHandler" where
  "stub_command_handler outcome = ICommandHandler (\<lambda>c w. (outcome, w, []))"

definition stub_query_handler :: "thrown + 'r Result \<Rightarrow> ('q, 'r, 'w) IQueryHandler" where
  "stub_query_handler outcome = IQueryHandler (\<lambda>q w. (outcome, w, []))"

definition registering_command_handler ::
  "string \<Rightarrow> ('c, 'r, 'w) ICommandHandler \<Rightarrow> ('c, 'r, 'w) ICommandHandler"
where
  "registering_command_handler name h =
     ICommandHandler (\<lambda>c w. (Inr (Result_ok None), w, [(name, h)]))"

definition registering_query_handler ::
  "string \<Rightarrow> ('q, 'r, 'w) IQueryHandler \<Rightarrow> ('q, 'r, 'w) IQueryHandler"
where
  "registering_query_handler name h =
     IQueryHandler (\<lambda>q w. (Inr (Result_ok None), w, [(name, h)]))"

text \<open>
  A world with no API key configured, a world where the key is \<^verbatim>\<open>test-key\<close> and the endpoint
  answers every request with the given response, and the command of the scenarios.
\<close>

definition world_without_key :: world where
  "world_without_key =
     \<lparr>import_meta_env = Some Map.empty, process_env = None,
      network = (\<lambda>req. Inl (Error ''Failed to fetch'')), requests = [], console = []\<rparr>"

definition world_answering :: "http_response \<Rightarrow> world" where
  "world_answering res =
     \<lparr>import_meta_env = Some [''VITE_EXA_API_KEY'' \<mapsto> ''test-key''], process_env = None,
      network = (\<lambda>req. Inr res), requests = [], console = []\<rparr>"

definition rust_vs_go :: "SearchMode \<Rightarrow> SearchCommand" where
  "rust_vs_go m =
     \<lparr>BaseCommand.timestamp = 0, commandId = ''00000000-0000-4000-8000-000000000000'',
      query = ''rust vs go'', mode = m\<rparr>"

section \<open>Properties of Result\<close>

text \<open>
  Claim C4. A Result built by \<open>Result_ok\<close> or by \<open>Result_fail\<close>, from any value and any
  message, has exactly one of isSuccess and isFailure true; the value getter on a failure
  and the error getter on a success throw an Error instead of returning \<^verbatim>\<open>undefined\<close>.
\<close>

theorem Result_exclusive_getters_throw:
  "Result_isSuccess (Result_ok v) \<noteq> Result_isFailure (Result_ok v)
   \<and> Result_isSuccess (Result_fail e :: 'a Result) \<noteq> Result_isFailure (Result_fail e :: 'a Result)
   \<and> Result_isSuccess (Result_ok v) \<and> Result_isFailure (Result_fail e :: 'a Result)
   \<and> Result_value (Result_fail e :: 'a Result) = Inl (Error ''Cannot get value from failed result'')
   \<and> Result_error (Result_ok v) = Inl (Error ''Cannot get error from successful result'')"
  by (simp add: Result_isSuccess_def Result_isFailure_def Result_value_def Result_error_def
      Result_ok_def Result_fail_def)

text \<open>
  Claim C9. \<^verbatim>\<open>Result.ok()\<close> with no argument (or with \<^verbatim>\<open>undefined\<close>) is a success whose
  value getter returns \<^verbatim>\<open>undefined\<close> without throwing.
\<close>

theorem Result_ok_undefined_value:
  "Result_isSuccess (Result_ok (None :: 'a option))
   \<and> Result_value (Result_ok (None :: 'a option)) = Inr None"
  by (simp add: Result_isSuccess_def Result_value_def Result_ok_def)

section \<open>Properties of the buses\<close>

lemma Result_fail_is_failure:
  "Result_isFailure (Result_fail e) \<and> Result_error (Result_fail e) = Inr (Some e)"
  by (simp add: Result_isFailure_def Result_error_def Result_fail_def)

lemma stub_command_handler_handle:
  "ICommandHandler.handle (stub_command_handler outcome) c w = (outcome, w, [])"
  by (simp add: stub_command_handler_def)

lemma stub_query_handler_handle:
  "IQueryHandler.handle (stub_query_handler outcome) q w = (outcome, w, [])"
  by (simp add: stub_query_handler_def)



lemma registering_command_handler_handle:
  "ICommandHandler.handle (registering_command_handler name h) c w
     = (Inr (Result_ok None), w, [(name, h)])"
  by (simp add: registering_command_handler_def)

lemma registering_query_handler_handle:
  "IQueryHandler.handle (registering_query_handler name h) q w
     = (Inr (Result_ok None), w, [(name, h)])"
  by (simp add: registering_query_handler_def)

lemma CommandBus_register_handlers:
  "CommandBus.handlers (CommandBus_register n H bus) = (CommandBus.handlers bus)(n \<mapsto> H)"
  by (simp add: CommandBus_register_def)

lemma QueryBus_register_handlers:
  "QueryBus.handlers (QueryBus_register n H bus) = (QueryBus.handlers bus)(n \<mapsto> H)"
  by (simp add: QueryBus_register_def)

lemma CommandBus_new_handlers: "CommandBus.handlers CommandBus_new n = None"
  by (simp add: CommandBus_new_def)

lemma QueryBus_new_handlers: "QueryBus.handlers QueryBus_new n = None"
  by (simp add: QueryBus_new_def)

text \<open>
  A run of registrations leaves alone every name that is not among them, and binds a name
  that is among them to some handler.
\<close>

lemma CommandBus_fold_register_other:
  "n \<notin> fst ` set regs \<Longrightarrow>
     CommandBus.handlers (fold (\<lambda>(name, h). CommandBus_register name h) regs bus) n
       = CommandBus.handlers bus n"
  by (induction regs arbitrary: bus) (auto simp add: CommandBus_register_handlers)

lemma QueryBus_fold_register_other:
  "n \<notin> fst ` set regs \<Longrightarrow>
     QueryBus.handlers (fold (\<lambda>(name, h). QueryBus_register name h) regs bus) n
       = QueryBus.handlers bus n"
  by (induction regs arbitrary: bus) (auto simp add: QueryBus_register_handlers)

lemma CommandBus_execute_unregistered:
  assumes "CommandBus.handlers bus n = None"
  shows "CommandBus_execute bus n c w =
    \<lparr>settled = Inr (Result_fail (''No handler registered for command: '' @ n)),
     invoked = [], bus_after = bus, world_after = w\<rparr>"
  using assms by (simp add: CommandBus_execute_def)

lemma QueryBus_execute_unregistered:
  assumes "QueryBus.handlers bus n = None"
  shows "QueryBus_execute bus n q w =
    \<lparr>settled = Inr (Result_fail (''No handler registered for query: '' @ n)),
     invoked = [], bus_after = bus, world_after = w\<rparr>"
  using assms by (simp add: QueryBus_execute_def)

lemma CommandBus_execute_resolved:
  assumes "CommandBus.handlers bus n = Some H"
    and "ICommandHandler.handle H c w = (Inr r, w', regs)"
  shows "CommandBus_execute bus n c w =
    \<lparr>settled = Inr r, invoked = [(H, c)],
     bus_after = fold (\<lambda>(name, h). CommandBus_register name h) regs bus,
     world_after = w'\<rparr>"
  using assms by (simp add: CommandBus_execute_def)

lemma QueryBus_execute_resolved:
  assumes "QueryBus.handlers bus n = Some H"
    and "IQueryHandler.handle H q w = (Inr r, w', regs)"
  shows "QueryBus_execute bus n q w =
    \<lparr>settled = Inr r, invoked = [(H, q)],
     bus_after = fold (\<lambda>(name, h). QueryBus_register name h) regs bus,
     world_after = w'\<rparr>"
  using assms by (simp add: QueryBus_execute_def)

lemma CommandBus_execute_thrown:
  assumes "CommandBus.handlers bus n = Some H"
    and "ICommandHandler.handle H c w = (Inl t, w', regs)"
  shows "CommandBus_execute bus n c w =
    \<lparr>settled =
       (case message_or_unknown t of
          Inl t' \<Rightarrow> Inl t'
        | Inr msg \<Rightarrow> Inr (Result_fail (''Error executing command: '' @ msg))),
     invoked = [(H, c)],
     bus_after = fold (\<lambda>(name, h). CommandBus_register name h) regs bus,
     world_after = w'\<rparr>"
  using assms by (simp add: CommandBus_execute_def)

lemma QueryBus_execute_thrown:
  assumes "QueryBus.handlers bus n = Some H"
    and "IQueryHandler.handle H q w = (Inl t, w', regs)"
  shows "QueryBus_execute bus n q w =
    \<lparr>settled =
       (case message_or_unknown t of
          Inl t' \<Rightarrow> Inl t'
        | Inr msg \<Rightarrow> Inr (Result_fail (''Error executing query: '' @ msg))),
     invoked = [(H, q)],
     bus_after = fold (\<lambda>(name, h). QueryBus_register name h) regs bus,
     world_after = w'\<rparr>"
  using assms by (simp add: QueryBus_execute_def)

text \<open>
  With a handler registered under the name, \<^verbatim>\<open>execute\<close> is what the \<^verbatim>\<open>handle\<close> of that
  handler does: its Result or its exception through the \<^verbatim>\<open>catch\<close> clause, its world, and
  its registrations applied to the bus.
\<close>

lemma CommandBus_execute_registered:
  assumes "CommandBus.handlers bus n = Some H"
  shows "settled (CommandBus_execute bus n c w) =
      (case fst (ICommandHandler.handle H c w) of
         Inr r \<Rightarrow> Inr r
       | Inl t \<Rightarrow>
           (case message_or_unknown t of
              Inl t' \<Rightarrow> Inl t'
            | Inr msg \<Rightarrow> Inr (Result_fail (''Error executing command: '' @ msg))))"
    and "invoked (CommandBus_execute bus n c w) = [(H, c)]"
    and "world_after (CommandBus_execute bus n c w) = fst (snd (ICommandHandler.handle H c w))"
    and "bus_after (CommandBus_execute bus n c w) =
      fold (\<lambda>(name, h). CommandBus_register name h) (snd (snd (ICommandHandler.handle H c w))) bus"
  using assms by (simp_all add: CommandBus_execute_def split: prod.split sum.split)

lemma QueryBus_execute_registered:
  assumes "QueryBus.handlers bus n = Some H"
  shows "settled (QueryBus_execute bus n q w) =
      (case fst (IQueryHandler.handle H q w) of
         Inr r \<Rightarrow> Inr r
       | Inl t \<Rightarrow>
           (case message_or_unknown t of
              Inl t' \<Rightarrow> Inl t'
            | Inr msg \<Rightarrow> Inr (Result_fail (''Error executing query: '' @ msg))))"
    and "invoked (QueryBus_execute bus n q w) = [(H, q)]"
    and "world_after (QueryBus_execute bus n q w) = fst (snd (IQueryHandler.handle H q w))"
    and "bus_after (QueryBus_execute bus n q w) =
      fold (\<lambda>(name, h). QueryBus_register name h) (snd (snd (IQueryHandler.handle H q w))) bus"
  using assms by (simp_all add: QueryBus_execute_def split: prod.split sum.split)

text \<open>
  The \<^verbatim>\<open>catch\<close> clause reads the message of what it caught outside any \<^verbatim>\<open>try\<close>: when the
  handler throws an Error whose message cannot be read, \<^verbatim>\<open>execute\<close> rejects.
\<close>

lemma execute_rejects_when_message_unreadable:
  "settled (CommandBus_execute
      (CommandBus_register ''X''
         (stub_command_handler (Inl (Unreadable (Error ''getter failed'')))
            :: (unit, unit, unit) ICommandHandler)
         CommandBus_new) ''X'' () ()) = Inl (Error ''getter failed'')
   \<and> settled (QueryBus_execute
      (QueryBus_register ''X''
         (stub_query_handler (Inl (Unreadable (Error ''getter failed'')))
            :: (unit, unit, unit) IQueryHandler)
         QueryBus_new) ''X'' () ()) = Inl (Error ''getter failed'')"
  by (simp add: CommandBus_execute_def CommandBus_register_def CommandBus_new_def
      QueryBus_execute_def QueryBus_register_def QueryBus_new_def
      stub_command_handler_def stub_query_handler_def)

text \<open>
  Claim C1, as stated, asks that the failure message include the message of every thrown
  value. A handler that throws the object \<^verbatim>\<open>{ message: 'boom' }\<close> on the command bus, or
  rejects with the string \<^verbatim>\<open>'boom'\<close> on the query bus, is answered with \<^verbatim>\<open>Unknown error\<close>:
  the text \<^verbatim>\<open>boom\<close> is lost.
\<close>

theorem execute_non_Error_thrown_message_lost:
  "settled (CommandBus_execute
      (CommandBus_register ''X''
         (stub_command_handler (Inl (NonError (JsObj [(''message'', JsStr ''boom'')])))
            :: (unit, unit, unit) ICommandHandler)
         CommandBus_new) ''X'' () ())
    = Inr (Result_fail ''Error executing command: Unknown error'')
   \<and> \<not> sublist ''boom'' ''Error executing command: Unknown error''
   \<and> settled (QueryBus_execute
      (QueryBus_register ''X''
         (stub_query_handler (Inl (NonError (JsStr ''boom'')))
            :: (unit, unit, unit) IQueryHandler)
         QueryBus_new) ''X'' () ())
    = Inr (Result_fail ''Error executing query: Unknown error'')
   \<and> \<not> sublist ''boom'' ''Error executing query: Unknown error''"
  by (simp add: CommandBus_execute_def CommandBus_register_def CommandBus_new_def
      QueryBus_execute_def QueryBus_register_def QueryBus_new_def
      stub_command_handler_def stub_query_handler_def sublist_Cons_right prefix_Cons)

text \<open>
  Claim C1, amended. When the handler registered under \<open>n\<close> throws or rejects with an
  instance of Error whose message reads as the text \<open>m\<close>, \<^verbatim>\<open>execute\<close> resolves (it does not
  reject) to a failure Result with the message \<^verbatim>\<open>Error executing <kind>: \<close> followed by
  \<open>m\<close>; when it throws or rejects with a value \<open>v\<close> that is not an instance of Error, to
  a failure Result with the message \<^verbatim>\<open>Error executing <kind>: Unknown error\<close>. Nothing is
  said of an Error whose message cannot be read.
\<close>

theorem execute_contains_handler_exception:
  "(CommandBus.handlers cb n = Some H \<and> fst (ICommandHandler.handle H x w) = Inl (Error m) \<longrightarrow>
      (\<exists>r. settled (CommandBus_execute cb n x w) = Inr r \<and> Result_isFailure r
         \<and> Result_error r = Inr (Some (''Error executing command: '' @ m))))
   \<and> (CommandBus.handlers cb n = Some H \<and> fst (ICommandHandler.handle H x w) = Inl (NonError v) \<longrightarrow>
      (\<exists>r. settled (CommandBus_execute cb n x w) = Inr r \<and> Result_isFailure r
         \<and> Result_error r = Inr (Some ''Error executing command: Unknown error'')))
   \<and> (QueryBus.handlers qb n = Some G \<and> fst (IQueryHandler.handle G y w) = Inl (Error m) \<longrightarrow>
      (\<exists>r. settled (QueryBus_execute qb n y w) = Inr r \<and> Result_isFailure r
         \<and> Result_error r = Inr (Some (''Error executing query: '' @ m))))
   \<and> (QueryBus.handlers qb n = Some G \<and> fst (IQueryHandler.handle G y w) = Inl (NonError v) \<longrightarrow>
      (\<exists>r. settled (QueryBus_execute qb n y w) = Inr r \<and> Result_isFailure r
         \<and> Result_error r = Inr (Some ''Error executing query: Unknown error'')))"
  by (simp add: CommandBus_execute_registered QueryBus_execute_registered Result_fail_is_failure)

theorem execute_contains_handler_exception_witness:
  "(\<exists>r. settled (CommandBus_execute
        (CommandBus_register ''X''
          (stub_command_handler (Inl (Error ''boom'')) :: (unit, unit, unit) ICommandHandler)
          CommandBus_new) ''X'' () ()) = Inr r
      \<and> Result_isFailure r \<and> Result_error r = Inr (Some ''Error executing command: boom''))
   \<and> (\<exists>r. settled (CommandBus_execute
        (CommandBus_register ''X''
          (stub_command_handler (Inl (NonError JsNull)) :: (unit, unit, unit) ICommandHandler)
          CommandBus_new) ''X'' () ()) = Inr r
      \<and> Result_isFailure r \<and> Result_error r = Inr (Some ''Error executing command: Unknown error''))
   \<and> (\<exists>r. settled (QueryBus_execute
        (QueryBus_register ''Y''
          (stub_query_handler (Inl (Error ''boom'')) :: (unit, unit, unit) IQueryHandler)
          QueryBus_new) ''Y'' () ()) = Inr r
      \<and> Result_isFailure r \<and> Result_error r = Inr (Some ''Error executing query: boom''))
   \<and> (\<exists>r. settled (QueryBus_execute
        (QueryBus_register ''Y''
          (stub_query_handler (Inl (NonError JsNull)) :: (unit, unit, unit) IQueryHandler)
          QueryBus_new) ''Y'' () ()) = Inr r
      \<and> Result_isFailure r \<and> Result_error r = Inr (Some ''Error executing query: Unknown error''))"
proof -
  let ?H = "stub_command_handler (Inl (Error ''boom'')) :: (unit, unit, unit) ICommandHandler"
  let ?H' = "stub_command_handler (Inl (NonError JsNull)) :: (unit, unit, unit) ICommandHandler"
  let ?G = "stub_query_handler (Inl (Error ''boom'')) :: (unit, unit, unit) IQueryHandler"
  let ?G' = "stub_query_handler (Inl (NonError JsNull)) :: (unit, unit, unit) IQueryHandler"
  have c: "CommandBus.handlers (CommandBus_register ''X'' ?H CommandBus_new) ''X'' = Some ?H
      \<and> fst (ICommandHandler.handle ?H () ()) = Inl (Error ''boom'')"
    by (simp add: CommandBus_register_handlers stub_command_handler_handle)
  have c': "CommandBus.handlers (CommandBus_register ''X'' ?H' CommandBus_new) ''X'' = Some ?H'
      \<and> fst (ICommandHandler.handle ?H' () ()) = Inl (NonError JsNull)"
    by (simp add: CommandBus_register_handlers stub_command_handler_handle)
  have q: "QueryBus.handlers (QueryBus_register ''Y'' ?G QueryBus_new) ''Y'' = Some ?G
      \<and> fst (IQueryHandler.handle ?G () ()) = Inl (Error ''boom'')"
    by (simp add: QueryBus_register_handlers stub_query_handler_handle)
  have q': "QueryBus.handlers (QueryBus_register ''Y'' ?G' QueryBus_new) ''Y'' = Some ?G'
      \<and> fst (IQueryHandler.handle ?G' () ()) = Inl (NonError JsNull)"
    by (simp add: QueryBus_register_handlers stub_query_handler_handle)
  from execute_contains_handler_exception [THEN conjunct1, rule_format, OF c]
    execute_contains_handler_exception [THEN conjunct2, THEN conjunct1, rule_format, OF c']
    execute_contains_handler_exception [THEN conjunct2, THEN conjunct2, THEN conjunct1,
      rule_format, OF q]
    execute_contains_handler_exception [THEN conjunct2, THEN conjunct2, THEN conjunct2,
      rule_format, OF q']
  show ?thesis by simp
qed

text \<open>
  Claim C2. When no handler is registered under \<open>n\<close>, whatever is registered under other
  names, \<^verbatim>\<open>execute\<close> resolves to the failure Result with the message
  \<^verbatim>\<open>No handler registered for <kind>: <n>\<close>, which contains \<open>n\<close>, and calls no handler: the
  list of calls is empty, and the world and the bus are left as they were.
\<close>

theorem execute_unknown_name:
  "(CommandBus.handlers cb n = None \<longrightarrow>
      (\<exists>r. settled (CommandBus_execute cb n p w) = Inr r \<and> Result_isFailure r
         \<and> Result_error r = Inr (Some (''No handler registered for command: '' @ n)))
      \<and> sublist n (''No handler registered for command: '' @ n)
      \<and> invoked (CommandBus_execute cb n p w) = []
      \<and> world_after (CommandBus_execute cb n p w) = w
      \<and> bus_after (CommandBus_execute cb n p w) = cb)
   \<and> (QueryBus.handlers qb n = None \<longrightarrow>
      (\<exists>r. settled (QueryBus_execute qb n p' w) = Inr r \<and> Result_isFailure r
         \<and> Result_error r = Inr (Some (''No handler registered for query: '' @ n)))
      \<and> sublist n (''No handler registered for query: '' @ n)
      \<and> invoked (QueryBus_execute qb n p' w) = []
      \<and> world_after (QueryBus_execute qb n p' w) = w
      \<and> bus_after (QueryBus_execute qb n p' w) = qb)"
  by (simp add: CommandBus_execute_unregistered QueryBus_execute_unregistered
      Result_fail_is_failure del: append.simps)

theorem execute_unknown_name_witness:
  "(\<exists>r. settled (CommandBus_execute
      (CommandBus_register ''SearchCommand''
         (stub_command_handler (Inr (Result_ok None)) :: (unit, unit, unit) ICommandHandler)
         CommandBus_new) ''nonexistent-name'' () ()) = Inr r \<and> Result_isFailure r
      \<and> Result_error r = Inr (Some ''No handler registered for command: nonexistent-name''))
   \<and> invoked (CommandBus_execute
      (CommandBus_register ''SearchCommand''
         (stub_command_handler (Inr (Result_ok None)) :: (unit, unit, unit) ICommandHandler)
         CommandBus_new) ''nonexistent-name'' () ()) = []
   \<and> (\<exists>r. settled (QueryBus_execute
      (QueryBus_register ''GetSearchResultsQuery''
         (stub_query_handler (Inr (Result_ok None)) :: (unit, unit, unit) IQueryHandler)
         QueryBus_new) ''nonexistent-name'' () ()) = Inr r \<and> Result_isFailure r
      \<and> Result_error r = Inr (Some ''No handler registered for query: nonexistent-name''))
   \<and> invoked (QueryBus_execute
      (QueryBus_register ''GetSearchResultsQuery''
         (stub_query_handler (Inr (Result_ok None)) :: (unit, unit, unit) IQueryHandler)
         QueryBus_new) ''nonexistent-name'' () ()) = []"
proof -
  let ?H = "stub_command_handler (Inr (Result_ok None)) :: (unit, unit, unit) ICommandHandler"
  let ?G = "stub_query_handler (Inr (Result_ok None)) :: (unit, unit, unit) IQueryHandler"
  have c: "CommandBus.handlers (CommandBus_register ''SearchCommand'' ?H CommandBus_new)
      ''nonexistent-name'' = None"
    by (simp add: CommandBus_register_handlers CommandBus_new_handlers)
  have q: "QueryBus.handlers (QueryBus_register ''GetSearchResultsQuery'' ?G QueryBus_new)
      ''nonexistent-name'' = None"
    by (simp add: QueryBus_register_handlers QueryBus_new_handlers)
  from execute_unknown_name [THEN conjunct1, rule_format, OF c, of "()" "()"]
    execute_unknown_name [THEN conjunct2, rule_format, OF q, of "()" "()"]
  show ?thesis by simp
qed

text \<open>
  Claim C3. After \<open>register n H\<close>, when \<open>handle H x\<close> resolves to a Result \<open>r\<close>, success or
  failure, \<open>execute n x\<close> resolves to that same \<open>r\<close>.
\<close>

theorem execute_passes_result_through:
  "(ICommandHandler.handle H x w = (Inr r, w', regs) \<longrightarrow>
      settled (CommandBus_execute (CommandBus_register n H cb) n x w) = Inr r)
   \<and> (IQueryHandler.handle G y w = (Inr r, w', regs') \<longrightarrow>
      settled (QueryBus_execute (QueryBus_register n G qb) n y w) = Inr r)"
  by (simp add: CommandBus_execute_resolved QueryBus_execute_resolved
      CommandBus_register_handlers QueryBus_register_handlers)

theorem execute_passes_result_through_witness:
  "settled (CommandBus_execute
      (CommandBus_register ''X''
         (ICommandHandler (\<lambda>(c :: nat) (w :: unit). (Inr (Result_ok (Some (c + 1))), w, [])))
         CommandBus_new) ''X'' 41 ()) = Inr (Result_ok (Some (42 :: nat)))
   \<and> settled (QueryBus_execute
      (QueryBus_register ''Y''
         (stub_query_handler (Inr (Result_fail ''not found'')) :: (nat, nat, unit) IQueryHandler)
         QueryBus_new) ''Y'' 7 ()) = Inr (Result_fail ''not found'')"
proof -
  let ?H = "ICommandHandler
    (\<lambda>(c :: nat) (w :: unit). (Inr (Result_ok (Some (c + 1))), w, []))"
  let ?G = "stub_query_handler (Inr (Result_fail ''not found'')) :: (nat, nat, unit) IQueryHandler"
  have c: "ICommandHandler.handle ?H 41 () = (Inr (Result_ok (Some 42)), (), [])"
    by simp
  have q: "IQueryHandler.handle ?G 7 () = (Inr (Result_fail ''not found''), (), [])"
    by (simp add: stub_query_handler_handle)
  from execute_passes_result_through [THEN conjunct1, rule_format, OF c]
    execute_passes_result_through [THEN conjunct2, rule_format, OF q]
  show ?thesis by simp
qed



text \<open>
  Claim C10, as stated, says that the registry after \<^verbatim>\<open>execute\<close> is the registry before it,
  for every bus. A handler registered under \<^verbatim>\<open>A\<close> that holds its bus and, when it runs,
  registers a handler under \<^verbatim>\<open>B\<close>: before \<open>execute ''A''\<close> the registry has nothing under
  \<^verbatim>\<open>B\<close>, after it the registry has that handler.
\<close>

theorem execute_registry_changed_by_handler:
  "CommandBus.handlers
      (CommandBus_register ''A''
         (registering_command_handler ''B'' (stub_command_handler (Inr (Result_ok None))))
         (CommandBus_new :: (unit, unit, unit) CommandBus)) ''B'' = None
   \<and> CommandBus.handlers (bus_after (CommandBus_execute
      (CommandBus_register ''A''
         (registering_command_handler ''B'' (stub_command_handler (Inr (Result_ok None))))
         (CommandBus_new :: (unit, unit, unit) CommandBus)) ''A'' () ())) ''B''
      = Some (stub_command_handler (Inr (Result_ok None)))
   \<and> QueryBus.handlers
      (QueryBus_register ''A''
         (registering_query_handler ''B'' (stub_query_handler (Inr (Result_ok None))))
         (QueryBus_new :: (unit, unit, unit) QueryBus)) ''B'' = None
   \<and> QueryBus.handlers (bus_after (QueryBus_execute
      (QueryBus_register ''A''
         (registering_query_handler ''B'' (stub_query_handler (Inr (Result_ok None))))
         (QueryBus_new :: (unit, unit, unit) QueryBus)) ''A'' () ())) ''B''
      = Some (stub_query_handler (Inr (Result_ok None)))"
  by (simp add: CommandBus_execute_def CommandBus_register_def CommandBus_new_def
      QueryBus_execute_def QueryBus_register_def QueryBus_new_def
      registering_command_handler_def registering_query_handler_def)

text \<open>
  Claim C10, amended. \<open>register n H\<close> changes the binding of \<open>n\<close> only: every other name
  keeps its handler or stays unbound. \<^verbatim>\<open>execute\<close> itself registers nothing: when no handler
  is registered under the name it is given, or the handler it runs makes no call of
  \<^verbatim>\<open>register\<close> on the bus, the bus after \<^verbatim>\<open>execute\<close> is the bus before it; and when the
  handler does register, every name it did not register under keeps its binding.
\<close>

theorem register_and_execute_frame:
  "(n' \<noteq> n \<longrightarrow>
      CommandBus.handlers (CommandBus_register n H cb) n' = CommandBus.handlers cb n'
      \<and> QueryBus.handlers (QueryBus_register n G qb) n' = QueryBus.handlers qb n')
   \<and> (CommandBus.handlers cb m = None \<longrightarrow> bus_after (CommandBus_execute cb m x w) = cb)
   \<and> (CommandBus.handlers cb m = Some H' \<and> snd (snd (ICommandHandler.handle H' x w)) = [] \<longrightarrow>
        bus_after (CommandBus_execute cb m x w) = cb)
   \<and> (CommandBus.handlers cb m = Some H'
        \<and> n' \<notin> fst ` set (snd (snd (ICommandHandler.handle H' x w))) \<longrightarrow>
        CommandBus.handlers (bus_after (CommandBus_execute cb m x w)) n'
          = CommandBus.handlers cb n')
   \<and> (QueryBus.handlers qb m = None \<longrightarrow> bus_after (QueryBus_execute qb m y w) = qb)
   \<and> (QueryBus.handlers qb m = Some G' \<and> snd (snd (IQueryHandler.handle G' y w)) = [] \<longrightarrow>
        bus_after (QueryBus_execute qb m y w) = qb)
   \<and> (QueryBus.handlers qb m = Some G'
        \<and> n' \<notin> fst ` set (snd (snd (IQueryHandler.handle G' y w))) \<longrightarrow>
        QueryBus.handlers (bus_after (QueryBus_execute qb m y w)) n'
          = QueryBus.handlers qb n')"
  by (simp add: CommandBus_register_handlers QueryBus_register_handlers
      CommandBus_execute_unregistered QueryBus_execute_unregistered
      CommandBus_execute_registered QueryBus_execute_registered
      CommandBus_fold_register_other QueryBus_fold_register_other)

theorem register_and_execute_frame_witness:
  "CommandBus.handlers
     (CommandBus_register ''B'' (stub_command_handler (Inr (Result_fail ''b'')))
       (CommandBus_register ''A''
          (stub_command_handler (Inr (Result_ok None)) :: (unit, unit, unit) ICommandHandler)
          CommandBus_new)) ''A''
     = Some (stub_command_handler (Inr (Result_ok None)))
   \<and> QueryBus.handlers
     (QueryBus_register ''B''
        (stub_query_handler (Inr (Result_ok None)) :: (unit, unit, unit) IQueryHandler)
        QueryBus_new) ''A'' = None
   \<and> bus_after (CommandBus_execute
        (CommandBus_register ''A''
          (stub_command_handler (Inr (Result_ok None)) :: (unit, unit, unit) ICommandHandler)
          CommandBus_new) ''C'' () ())
     = CommandBus_register ''A'' (stub_command_handler (Inr (Result_ok None))) CommandBus_new
   \<and> bus_after (CommandBus_execute
        (CommandBus_register ''A''
          (stub_command_handler (Inr (Result_ok None)) :: (unit, unit, unit) ICommandHandler)
          CommandBus_new) ''A'' () ())
     = CommandBus_register ''A'' (stub_command_handler (Inr (Result_ok None))) CommandBus_new
   \<and> CommandBus.handlers (bus_after (CommandBus_execute
        (CommandBus_register ''A''
          (registering_command_handler ''B'' (stub_command_handler (Inr (Result_ok None)))
             :: (unit, unit, unit) ICommandHandler)
          CommandBus_new) ''A'' () ())) ''A''
     = Some (registering_command_handler ''B'' (stub_command_handler (Inr (Result_ok None))))
   \<and> bus_after (QueryBus_execute
        (QueryBus_register ''A''
          (stub_query_handler (Inr (Result_ok None)) :: (unit, unit, unit) IQueryHandler)
          QueryBus_new) ''C'' () ())
     = QueryBus_register ''A'' (stub_query_handler (Inr (Result_ok None))) QueryBus_new
   \<and> bus_after (QueryBus_execute
        (QueryBus_register ''A''
          (stub_query_handler (Inr (Result_ok None)) :: (unit, unit, unit) IQueryHandler)
          QueryBus_new) ''A'' () ())
     = QueryBus_register ''A'' (stub_query_handler (Inr (Result_ok None))) QueryBus_new
   \<and> QueryBus.handlers (bus_after (QueryBus_execute
        (QueryBus_register ''A''
          (registering_query_handler ''B'' (stub_query_handler (Inr (Result_ok None)))
             :: (unit, unit, unit) IQueryHandler)
          QueryBus_new) ''A'' () ())) ''A''
     = Some (registering_query_handler ''B'' (stub_query_handler (Inr (Result_ok None))))"
proof -
  let ?H = "stub_command_handler (Inr (Result_ok None)) :: (unit, unit, unit) ICommandHandler"
  let ?Hb = "stub_command_handler (Inr (Result_fail ''b'')) :: (unit, unit, unit) ICommandHandler"
  let ?R = "registering_command_handler ''B'' ?H"
  let ?G = "stub_query_handler (Inr (Result_ok None)) :: (unit, unit, unit) IQueryHandler"
  let ?Q = "registering_query_handler ''B'' ?G"
  let ?cb = "CommandBus_register ''A'' ?H CommandBus_new"
  let ?cr = "CommandBus_register ''A'' ?R CommandBus_new"
  let ?qb = "QueryBus_register ''A'' ?G QueryBus_new"
  let ?qr = "QueryBus_register ''A'' ?Q QueryBus_new"
  have ne: "''A'' \<noteq> ''B''" by simp
  have c1: "CommandBus.handlers ?cb ''C'' = None"
    by (simp add: CommandBus_register_handlers CommandBus_new_handlers)
  have c2: "CommandBus.handlers ?cb ''A'' = Some ?H
      \<and> snd (snd (ICommandHandler.handle ?H () ())) = []"
    by (simp add: CommandBus_register_handlers stub_command_handler_handle)
  have c3: "CommandBus.handlers ?cr ''A'' = Some ?R
      \<and> ''A'' \<notin> fst ` set (snd (snd (ICommandHandler.handle ?R () ())))"
    by (simp add: CommandBus_register_handlers registering_command_handler_handle)
  have q1: "QueryBus.handlers ?qb ''C'' = None"
    by (simp add: QueryBus_register_handlers QueryBus_new_handlers)
  have q2: "QueryBus.handlers ?qb ''A'' = Some ?G
      \<and> snd (snd (IQueryHandler.handle ?G () ())) = []"
    by (simp add: QueryBus_register_handlers stub_query_handler_handle)
  have q3: "QueryBus.handlers ?qr ''A'' = Some ?Q
      \<and> ''A'' \<notin> fst ` set (snd (snd (IQueryHandler.handle ?Q () ())))"
    by (simp add: QueryBus_register_handlers registering_query_handler_handle)
  note f = register_and_execute_frame [where n = "''B''" and n' = "''A''" and H = ?Hb
      and cb = ?cb and G = ?G and qb = "QueryBus_new :: (unit, unit, unit) QueryBus",
      THEN conjunct1, rule_format, OF ne]
  note r = register_and_execute_frame [THEN conjunct2]
  from f
    r [THEN conjunct1, rule_format, OF c1]
    r [THEN conjunct2, THEN conjunct1, rule_format, OF c2]
    r [THEN conjunct2, THEN conjunct2, THEN conjunct1, rule_format, OF c3]
    r [THEN conjunct2, THEN conjunct2, THEN conjunct2, THEN conjunct1, rule_format, OF q1]
    r [THEN conjunct2, THEN conjunct2, THEN conjunct2, THEN conjunct2, THEN conjunct1,
      rule_format, OF q2]
    r [THEN conjunct2, THEN conjunct2, THEN conjunct2, THEN conjunct2, THEN conjunct2,
      rule_format, OF q3]
  show ?thesis
    by (simp add: CommandBus_register_handlers QueryBus_register_handlers
        CommandBus_new_handlers QueryBus_new_handlers)
qed

section \<open>Properties of the search gateway and its handler\<close>

lemma getApiKey_absent:
  assumes "(case import_meta_env w of None \<Rightarrow> None | Some env \<Rightarrow> env ''VITE_EXA_API_KEY'') = None"
    and "(case process_env w of None \<Rightarrow> None | Some env \<Rightarrow> env ''VITE_EXA_API_KEY'') = None"
  shows "getApiKey w =
    Inl (Error ''Exa API key not configured. Set VITE_EXA_API_KEY in your .env file.'')"
  using assms by (simp add: getApiKey_def)

lemma getApiKey_console_log: "getApiKey (console_log line w) = getApiKey w"
  by (simp add: getApiKey_def console_log_def split: option.split)

lemma network_console_log: "network (console_log line w) = network w"
  by (simp add: console_log_def)

lemma exaSearch_no_key:
  assumes "getApiKey w = Inl e"
  shows "exaSearch q m w = (Inl e, w)"
  using assms by (simp add: exaSearch_def)

text \<open>The request that \<^verbatim>\<open>exaSearch\<close> sends in each mode, once the key \<open>k\<close> is read.\<close>

lemma exaSearch_search_sends:
  assumes "getApiKey w = Inr k"
  shows "snd (exaSearch q Search w) = w\<lparr>requests := requests w @
    [\<lparr>url = ''https://api.exa.ai/search'', http_method = ''POST'',
      headers = [(''Content-Type'', ''application/json''), (''x-api-key'', k)],
      body = Some (JObj
        [(''query'', JStr q), (''type'', JStr ''auto''), (''numResults'', JNum 10),
         (''contents'', JObj [(''text'', JBool True)])])\<rparr>]\<rparr>"
  using assms
  by (simp add: exaSearch_def fetch_def EXA_BASE_URL_def Let_def split: sum.split)

lemma exaSearch_research_sends:
  assumes "getApiKey w = Inr k"
  shows "snd (exaSearch q Research w) = w\<lparr>requests := requests w @
    [\<lparr>url = ''https://api.exa.ai/search'', http_method = ''POST'',
      headers = [(''Content-Type'', ''application/json''), (''x-api-key'', k)],
      body = Some (JObj
        [(''query'', JStr q), (''type'', JStr ''deep''), (''numResults'', JNum 20),
         (''contents'', JObj
            [(''text'', JBool True), (''highlights'', JBool True),
             (''summary'', JBool True)])])\<rparr>]\<rparr>"
  using assms
  by (simp add: exaSearch_def fetch_def EXA_BASE_URL_def Let_def split: sum.split)

text \<open>
  What \<^verbatim>\<open>exaSearch\<close> throws when the endpoint answers its request with a status outside 200
  to 299: the error built from the status and the body text when the text can be read,
  and whatever \<^verbatim>\<open>res.text()\<close> rejects with when it cannot.
\<close>

lemma exaSearch_non_ok:
  assumes "getApiKey w = Inr k"
    and "network w
      \<lparr>url = ''https://api.exa.ai/search'', http_method = ''POST'',
       headers = [(''Content-Type'', ''application/json''), (''x-api-key'', k)],
       body = JSON_stringify (JsObj
         [(''query'', JsStr q),
          (''type'', JsStr (if m = Research then ''deep'' else ''auto'')),
          (''numResults'', JsNum (if m = Research then 20 else 10)),
          (''contents'', JsObj
             [(''text'', JsBool True),
              (''highlights'', if m = Research then JsBool True else JsUndefined),
              (''summary'', if m = Research then JsBool True else JsUndefined)])])\<rparr> = Inr res"
    and "\<not> Response_ok res"
  shows "fst (exaSearch q m w) =
    (case body_text res of
       Inl t \<Rightarrow> Inl t
     | Inr errorText \<Rightarrow>
         Inl (Error (''Exa API error ('' @ decimal (status res) @ ''): '' @ errorText)))"
proof (cases m)
  case Search
  with assms show ?thesis
    by (simp add: exaSearch_def fetch_def EXA_BASE_URL_def Let_def split: sum.split)
next
  case Research
  with assms show ?thesis
    by (simp add: exaSearch_def fetch_def EXA_BASE_URL_def Let_def split: sum.split)
qed

lemma SearchCommandHandler_handle_thrown:
  assumes "fst (exaSearch (query c) (mode c)
      (console_log (''Executing Exa '' @ SearchMode_string (mode c) @ '' for: \"''
         @ query c @ ''\"'') w)) = Inl t"
  shows "fst (SearchCommandHandler_handle c w) =
    (case message_or_unknown t of
       Inl t' \<Rightarrow> Inl t'
     | Inr msg \<Rightarrow> Inr (Result_fail (''Search failed: '' @ msg)))"
  using assms
  by (auto simp add: SearchCommandHandler_handle_def split: prod.splits sum.splits)

lemma SearchCommandHandler_handle_world:
  "snd (SearchCommandHandler_handle c w) =
     snd (exaSearch (query c) (mode c)
       (console_log (''Executing Exa '' @ SearchMode_string (mode c) @ '' for: \"''
          @ query c @ ''\"'') w))"
  by (simp add: SearchCommandHandler_handle_def split: prod.splits sum.splits)

lemma Container_new_commandBus:
  "CommandBus.handlers (Container_commandBus Container_new) ''SearchCommand''
     = Some SearchCommandHandler_new"
  by (simp add: Container_commandBus_def Container_new_def registerHandlers_def
      CommandBus_register_def)

lemma Container_new_queryBus:
  "QueryBus.handlers (Container_queryBus Container_new) ''GetSearchResultsQuery''
     = Some GetSearchResultsQueryHandler_new"
  by (simp add: Container_queryBus_def Container_new_def registerHandlers_def
      QueryBus_register_def)

text \<open>
  Claim C5. Once the API key is read, \<^verbatim>\<open>exaSearch\<close> sends one request. In mode
  \<^verbatim>\<open>search\<close> its body has type \<^verbatim>\<open>auto\<close>, numResults 10 and contents with \<^verbatim>\<open>text: true\<close>
  and no other property (neither highlights nor summary); in mode \<^verbatim>\<open>research\<close> it has
  type \<^verbatim>\<open>deep\<close>, numResults 20 and contents with text, highlights and summary all true.
  This holds for every query string.
\<close>

theorem exaSearch_mode_mapping:
  "getApiKey w = Inr k \<longrightarrow>
     map body (requests (snd (exaSearch q Search w))) = map body (requests w) @
       [Some (JObj
          [(''query'', JStr q), (''type'', JStr ''auto''), (''numResults'', JNum 10),
           (''contents'', JObj [(''text'', JBool True)])])]
     \<and> map body (requests (snd (exaSearch q Research w))) = map body (requests w) @
       [Some (JObj
          [(''query'', JStr q), (''type'', JStr ''deep''), (''numResults'', JNum 20),
           (''contents'', JObj
              [(''text'', JBool True), (''highlights'', JBool True),
               (''summary'', JBool True)])])]"
  by (simp add: exaSearch_search_sends exaSearch_research_sends)

theorem exaSearch_mode_mapping_witness:
  "map body (requests (snd (exaSearch ''rust vs go'' Search
       (world_answering
          \<lparr>status = 200, body_text = Inr ''{}'', body_json = Inr (JObj [])\<rparr>)))) =
     [Some (JObj
        [(''query'', JStr ''rust vs go''), (''type'', JStr ''auto''), (''numResults'', JNum 10),
         (''contents'', JObj [(''text'', JBool True)])])]
   \<and> map body (requests (snd (exaSearch ''rust vs go'' Research
       (world_answering
          \<lparr>status = 200, body_text = Inr ''{}'', body_json = Inr (JObj [])\<rparr>)))) =
     [Some (JObj
        [(''query'', JStr ''rust vs go''), (''type'', JStr ''deep''), (''numResults'', JNum 20),
         (''contents'', JObj
            [(''text'', JBool True), (''highlights'', JBool True),
             (''summary'', JBool True)])])]"
proof -
  let ?w = "world_answering
    \<lparr>status = 200, body_text = Inr ''{}'', body_json = Inr (JObj [])\<rparr>"
  have k: "getApiKey ?w = Inr ''test-key''"
    by (simp add: getApiKey_def world_answering_def)
  have r: "requests ?w = []"
    by (simp add: world_answering_def)
  from exaSearch_mode_mapping [rule_format, OF k, of "''rust vs go''"] r
  show ?thesis by simp
qed

text \<open>
  Claim C6, as stated, covers every response with a status outside 200 to 299. The
  endpoint answers 500 and the body cannot be read: \<^verbatim>\<open>res.text()\<close> rejects with the Error
  \<^verbatim>\<open>connection reset\<close>. The handler resolves to the failure \<^verbatim>\<open>Search failed: connection reset\<close>,
  which holds neither the status code nor any body text.
\<close>

theorem SearchCommandHandler_non_2xx_body_unreadable:
  "\<not> Response_ok
       \<lparr>status = 500, body_text = Inl (Error ''connection reset''),
        body_json = Inl (Error ''connection reset'')\<rparr>
   \<and> fst (SearchCommandHandler_handle (rust_vs_go Search)
        (world_answering
           \<lparr>status = 500, body_text = Inl (Error ''connection reset''),
            body_json = Inl (Error ''connection reset'')\<rparr>))
      = Inr (Result_fail ''Search failed: connection reset'')
   \<and> \<not> sublist ''500'' ''Search failed: connection reset''"
  by (simp add: SearchCommandHandler_handle_def exaSearch_def fetch_def getApiKey_def
      world_answering_def console_log_def rust_vs_go_def Response_ok_def Let_def
      sublist_Cons_right prefix_Cons)

text \<open>
  Claim C6, amended. When the API key is configured, the endpoint answers the request of
  the handler with a status outside 200 to 299, and the text of the response body can be
  read, the handler resolves (nothing is thrown) to a failure Result whose message is
  \<^verbatim>\<open>Search failed: Exa API error (<status>): <body text>\<close>; it contains the status code in
  decimal and the raw text of the response body.
\<close>

theorem SearchCommandHandler_non_2xx:
  "getApiKey w = Inr k
   \<and> network w
       \<lparr>url = ''https://api.exa.ai/search'', http_method = ''POST'',
        headers = [(''Content-Type'', ''application/json''), (''x-api-key'', k)],
        body = JSON_stringify (JsObj
          [(''query'', JsStr (query c)),
           (''type'', JsStr (if mode c = Research then ''deep'' else ''auto'')),
           (''numResults'', JsNum (if mode c = Research then 20 else 10)),
           (''contents'', JsObj
              [(''text'', JsBool True),
               (''highlights'', if mode c = Research then JsBool True else JsUndefined),
               (''summary'', if mode c = Research then JsBool True else JsUndefined)])])\<rparr>
       = Inr res
   \<and> \<not> Response_ok res \<and> body_text res = Inr errorText \<longrightarrow>
     (\<exists>r. fst (SearchCommandHandler_handle c w) = Inr r \<and> Result_isFailure r
        \<and> Result_error r = Inr (Some (''Search failed: Exa API error ('' @ decimal (status res)
             @ ''): '' @ errorText)))
     \<and> sublist (decimal (status res))
          (''Search failed: Exa API error ('' @ decimal (status res) @ ''): '' @ errorText)
     \<and> sublist errorText
          (''Search failed: Exa API error ('' @ decimal (status res) @ ''): '' @ errorText)"
proof (intro impI conjI)
  let ?line = "''Executing Exa '' @ SearchMode_string (mode c) @ '' for: \"'' @ query c @ ''\"''"
  let ?req = "\<lparr>url = ''https://api.exa.ai/search'', http_method = ''POST'',
        headers = [(''Content-Type'', ''application/json''), (''x-api-key'', k)],
        body = JSON_stringify (JsObj
          [(''query'', JsStr (query c)),
           (''type'', JsStr (if mode c = Research then ''deep'' else ''auto'')),
           (''numResults'', JsNum (if mode c = Research then 20 else 10)),
           (''contents'', JsObj
              [(''text'', JsBool True),
               (''highlights'', if mode c = Research then JsBool True else JsUndefined),
               (''summary'', if mode c = Research then JsBool True else JsUndefined)])])\<rparr>"
  assume a: "getApiKey w = Inr k \<and> network w ?req = Inr res
    \<and> \<not> Response_ok res \<and> body_text res = Inr errorText"
  then have k: "getApiKey (console_log ?line w) = Inr k"
    by (simp only: getApiKey_console_log)
  from a have n: "network (console_log ?line w) ?req = Inr res"
    by (simp only: network_console_log)
  from a have o: "\<not> Response_ok res" and t: "body_text res = Inr errorText"
    by simp_all
  have "fst (exaSearch (query c) (mode c) (console_log ?line w)) =
      Inl (Error (''Exa API error ('' @ decimal (status res) @ ''): '' @ errorText))"
    using exaSearch_non_ok [OF k n o] t by simp
  then have "fst (SearchCommandHandler_handle c w) = Inr (Result_fail (''Search failed: '' @
      ''Exa API error ('' @ decimal (status res) @ ''): '' @ errorText))"
    by (simp add: SearchCommandHandler_handle_thrown del: append.simps)
  then show "\<exists>r. fst (SearchCommandHandler_handle c w) = Inr r \<and> Result_isFailure r
      \<and> Result_error r = Inr (Some (''Search failed: Exa API error ('' @ decimal (status res)
           @ ''): '' @ errorText))"
    by (simp add: Result_fail_is_failure)
next
  show "sublist (decimal (status res))
      (''Search failed: Exa API error ('' @ decimal (status res) @ ''): '' @ errorText)"
    by (rule sublist_appendI)
next
  have "sublist errorText
      ((''Search failed: Exa API error ('' @ decimal (status res) @ ''): '') @ errorText)"
    by (rule sublist_append_leftI)
  then show "sublist errorText
      (''Search failed: Exa API error ('' @ decimal (status res) @ ''): '' @ errorText)"
    by simp
qed

theorem SearchCommandHandler_non_2xx_witness:
  "(\<exists>r. fst (SearchCommandHandler_handle (rust_vs_go Search)
        (world_answering
           \<lparr>status = 500, body_text = Inr ''rate limited'',
            body_json = Inl (Error ''Unexpected token r in JSON at position 0'')\<rparr>)) = Inr r
      \<and> Result_isFailure r
      \<and> Result_error r = Inr (Some ''Search failed: Exa API error (500): rate limited''))
   \<and> sublist ''500'' ''Search failed: Exa API error (500): rate limited''
   \<and> sublist ''rate limited'' ''Search failed: Exa API error (500): rate limited''
   \<and> (\<exists>r. fst (SearchCommandHandler_handle (rust_vs_go Research)
        (world_answering
           \<lparr>status = 404, body_text = Inr ''{\"error\":\"not found\"}'',
            body_json = Inr (JObj [(''error'', JStr ''not found'')])\<rparr>)) = Inr r
      \<and> Result_isFailure r
      \<and> Result_error r
          = Inr (Some ''Search failed: Exa API error (404): {\"error\":\"not found\"}''))"
proof -
  let ?res = "\<lparr>status = 500, body_text = Inr ''rate limited'',
    body_json = Inl (Error ''Unexpected token r in JSON at position 0'')\<rparr>"
  let ?res' = "\<lparr>status = 404, body_text = Inr ''{\"error\":\"not found\"}'',
    body_json = Inr (JObj [(''error'', JStr ''not found'')])\<rparr>"
  have h: "getApiKey (world_answering ?res) = Inr ''test-key''
    \<and> network (world_answering ?res)
       \<lparr>url = ''https://api.exa.ai/search'', http_method = ''POST'',
        headers = [(''Content-Type'', ''application/json''), (''x-api-key'', ''test-key'')],
        body = JSON_stringify (JsObj
          [(''query'', JsStr (query (rust_vs_go Search))),
           (''type'', JsStr (if mode (rust_vs_go Search) = Research then ''deep'' else ''auto'')),
           (''numResults'', JsNum (if mode (rust_vs_go Search) = Research then 20 else 10)),
           (''contents'', JsObj
              [(''text'', JsBool True),
               (''highlights'',
                if mode (rust_vs_go Search) = Research then JsBool True else JsUndefined),
               (''summary'',
                if mode (rust_vs_go Search) = Research then JsBool True else JsUndefined)])])\<rparr>
       = Inr ?res
    \<and> \<not> Response_ok ?res \<and> body_text ?res = Inr ''rate limited''"
    by (simp add: getApiKey_def world_answering_def Response_ok_def)
  have h': "getApiKey (world_answering ?res') = Inr ''test-key''
    \<and> network (world_answering ?res')
       \<lparr>url = ''https://api.exa.ai/search'', http_method = ''POST'',
        headers = [(''Content-Type'', ''application/json''), (''x-api-key'', ''test-key'')],
        body = JSON_stringify (JsObj
          [(''query'', JsStr (query (rust_vs_go Research))),
           (''type'',
            JsStr (if mode (rust_vs_go Research) = Research then ''deep'' else ''auto'')),
           (''numResults'', JsNum (if mode (rust_vs_go Research) = Research then 20 else 10)),
           (''contents'', JsObj
              [(''text'', JsBool True),
               (''highlights'',
                if mode (rust_vs_go Research) = Research then JsBool True else JsUndefined),
               (''summary'',
                if mode (rust_vs_go Research) = Research then JsBool True else JsUndefined)])])\<rparr>
       = Inr ?res'
    \<and> \<not> Response_ok ?res' \<and> body_text ?res' = Inr ''{\"error\":\"not found\"}''"
    by (simp add: getApiKey_def world_answering_def Response_ok_def)
  have d: "decimal 500 = ''500''" "decimal 404 = ''404''"
    by (simp_all add: decimal.simps digit_def)
  from SearchCommandHandler_non_2xx [rule_format, OF h]
    SearchCommandHandler_non_2xx [rule_format, OF h'] d
  show ?thesis by simp
qed

text \<open>
  Claim C7. A Container is built, with both handlers registered, without the configuration
  being read. When no API key is configured, \<^verbatim>\<open>exaSearch\<close> throws the configuration error
  when it is called and sends no request; a search through the command bus of the
  Container resolves to the failure carrying that error, sends no request and leaves the
  configuration as it was, so the next call fails in the same way.
\<close>

theorem missing_api_key_fails_each_call:
  "(case import_meta_env w of None \<Rightarrow> None | Some env \<Rightarrow> env ''VITE_EXA_API_KEY'') = None
   \<and> (case process_env w of None \<Rightarrow> None | Some env \<Rightarrow> env ''VITE_EXA_API_KEY'') = None \<longrightarrow>
     Container_getInstance None = (Container_new, Some Container_new)
     \<and> CommandBus.handlers (Container_commandBus Container_new) ''SearchCommand''
         = Some SearchCommandHandler_new
     \<and> QueryBus.handlers (Container_queryBus Container_new) ''GetSearchResultsQuery''
         = Some GetSearchResultsQueryHandler_new
     \<and> exaSearch q m w =
         (Inl (Error ''Exa API key not configured. Set VITE_EXA_API_KEY in your .env file.''), w)
     \<and> settled (CommandBus_execute (Container_commandBus Container_new) ''SearchCommand'' c w)
         = Inr (Result_fail
             ''Search failed: Exa API key not configured. Set VITE_EXA_API_KEY in your .env file.'')
     \<and> requests (world_after
           (CommandBus_execute (Container_commandBus Container_new) ''SearchCommand'' c w))
         = requests w
     \<and> import_meta_env (world_after
           (CommandBus_execute (Container_commandBus Container_new) ''SearchCommand'' c w))
         = import_meta_env w
     \<and> process_env (world_after
           (CommandBus_execute (Container_commandBus Container_new) ''SearchCommand'' c w))
         = process_env w
     \<and> bus_after (CommandBus_execute (Container_commandBus Container_new) ''SearchCommand'' c w)
         = Container_commandBus Container_new"
proof (intro impI)
  let ?err = "Error ''Exa API key not configured. Set VITE_EXA_API_KEY in your .env file.''"
  let ?line = "''Executing Exa '' @ SearchMode_string (mode c) @ '' for: \"'' @ query c @ ''\"''"
  assume a: "(case import_meta_env w of None \<Rightarrow> None | Some env \<Rightarrow> env ''VITE_EXA_API_KEY'') = None
   \<and> (case process_env w of None \<Rightarrow> None | Some env \<Rightarrow> env ''VITE_EXA_API_KEY'') = None"
  then have k: "getApiKey w = Inl ?err"
    by (simp add: getApiKey_absent)
  then have k': "getApiKey (console_log l w) = Inl ?err" for l
    by (simp only: getApiKey_console_log)
  have s: "exaSearch q m w = (Inl ?err, w)"
    by (rule exaSearch_no_key [OF k])
  have h: "ICommandHandler.handle SearchCommandHandler_new c w =
      (Inr (Result_fail
         ''Search failed: Exa API key not configured. Set VITE_EXA_API_KEY in your .env file.''),
       console_log ?line w, [])"
    by (simp add: SearchCommandHandler_new_def SearchCommandHandler_handle_def
        exaSearch_no_key [OF k'])
  have e: "CommandBus_execute (Container_commandBus Container_new) ''SearchCommand'' c w =
      \<lparr>settled = Inr (Result_fail
         ''Search failed: Exa API key not configured. Set VITE_EXA_API_KEY in your .env file.''),
       invoked = [(SearchCommandHandler_new, c)],
       bus_after = fold (\<lambda>(name, h). CommandBus_register name h) []
         (Container_commandBus Container_new),
       world_after = console_log ?line w\<rparr>"
    by (rule CommandBus_execute_resolved [OF Container_new_commandBus h])
  show "Container_getInstance None = (Container_new, Some Container_new)
     \<and> CommandBus.handlers (Container_commandBus Container_new) ''SearchCommand''
         = Some SearchCommandHandler_new
     \<and> QueryBus.handlers (Container_queryBus Container_new) ''GetSearchResultsQuery''
         = Some GetSearchResultsQueryHandler_new
     \<and> exaSearch q m w = (Inl ?err, w)
     \<and> settled (CommandBus_execute (Container_commandBus Container_new) ''SearchCommand'' c w)
         = Inr (Result_fail
             ''Search failed: Exa API key not configured. Set VITE_EXA_API_KEY in your .env file.'')
     \<and> requests (world_after
           (CommandBus_execute (Container_commandBus Container_new) ''SearchCommand'' c w))
         = requests w
     \<and> import_meta_env (world_after
           (CommandBus_execute (Container_commandBus Container_new) ''SearchCommand'' c w))
         = import_meta_env w
     \<and> process_env (world_after
           (CommandBus_execute (Container_commandBus Container_new) ''SearchCommand'' c w))
         = process_env w
     \<and> bus_after (CommandBus_execute (Container_commandBus Container_new) ''SearchCommand'' c w)
         = Container_commandBus Container_new"
    by (simp add: e s Container_new_commandBus Container_new_queryBus
        Container_getInstance_def console_log_def)
qed

theorem missing_api_key_fails_each_call_witness:
  "exaSearch ''rust vs go'' Search world_without_key =
     (Inl (Error ''Exa API key not configured. Set VITE_EXA_API_KEY in your .env file.''),
      world_without_key)
   \<and> settled (CommandBus_execute (Container_commandBus Container_new) ''SearchCommand''
        (rust_vs_go Research) world_without_key)
      = Inr (Result_fail
          ''Search failed: Exa API key not configured. Set VITE_EXA_API_KEY in your .env file.'')
   \<and> requests (world_after (CommandBus_execute (Container_commandBus Container_new)
        ''SearchCommand'' (rust_vs_go Research) world_without_key)) = []"
proof -
  have a: "(case import_meta_env world_without_key of None \<Rightarrow> None
      | Some env \<Rightarrow> env ''VITE_EXA_API_KEY'') = None
    \<and> (case process_env world_without_key of None \<Rightarrow> None
      | Some env \<Rightarrow> env ''VITE_EXA_API_KEY'') = None"
    by (simp add: world_without_key_def)
  have r: "requests world_without_key = []"
    by (simp add: world_without_key_def)
  from missing_api_key_fails_each_call [rule_format, OF a,
      of "''rust vs go''" Search "rust_vs_go Research"] r
  show ?thesis by simp
qed

end
